theory Spec2Isabelle
  imports Main
begin

section \<open>The command dispatcher: conans/cli/cli.py\<close>

subsection \<open>Exit codes\<close>

text \<open>
  The constants are imported from conans/cli/exit_codes.py. Their values are the ones the
  docstring of \<^verbatim>\<open>main\<close> (cli.py, lines 186-194) lists:
  0 success, 1 general ConanException error, 2 migration error, 3 Ctrl+C, 4 Ctrl+Break,
  5 SIGTERM, 6 invalid configuration. The docstring gives no value for
  \<^verbatim>\<open>ERROR_INVALID_SYSTEM_REQUIREMENTS\<close>; it is a field of the environment below.
\<close>

definition SUCCESS :: int where "SUCCESS = 0"
definition ERROR_GENERAL :: int where "ERROR_GENERAL = 1"
definition ERROR_MIGRATION :: int where "ERROR_MIGRATION = 2"
definition USER_CTRL_C :: int where "USER_CTRL_C = 3"
definition USER_CTRL_BREAK :: int where "USER_CTRL_BREAK = 4"
definition ERROR_SIGTERM :: int where "ERROR_SIGTERM = 5"
definition ERROR_INVALID_CONFIGURATION :: int where "ERROR_INVALID_CONFIGURATION = 6"

subsection \<open>Python values and exceptions\<close>

text \<open>
  The objects \<^verbatim>\<open>Cli.run\<close> returns and the argument of \<^verbatim>\<open>SystemExit\<close>: \<^verbatim>\<open>sys.exit()\<close>
  gives \<^verbatim>\<open>code = None\<close>, \<^verbatim>\<open>sys.exit(2)\<close> an integer, \<^verbatim>\<open>sys.exit("message")\<close> a string.
  Other objects (floats, booleans) do not occur as exit codes here.
\<close>

datatype py_value = PyNone | PyInt int | PyStr string

text \<open>
  The exception classes that \<^verbatim>\<open>Cli.run\<close> names or that its own statements raise, and
  \<open>OtherException name\<close> for any further class deriving directly from \<^verbatim>\<open>Exception\<close>.
  The Conan classes are declared in conans/errors.py, which is not among the sources;
  they derive from \<^verbatim>\<open>ConanException\<close>, as the order of the handlers in \<^verbatim>\<open>Cli.run\<close>
  presupposes (the specific handlers stand before \<^verbatim>\<open>except ConanException\<close>).
  \<open>mro\<close> lists a class with its base classes.
\<close>

datatype exc_class =
    BaseException
  | Exception
  | SystemExit
  | KeyboardInterrupt
  | LookupError
  | IndexError
  | KeyError
  | ValueError
  | TypeError
  | ConanException
  | ConanInvalidConfiguration
  | ConanInvalidSystemRequirements
  | ConanMigrationError
  | OtherException string

fun mro :: "exc_class \<Rightarrow> exc_class list" where
  "mro BaseException = [BaseException]"
| "mro Exception = [Exception, BaseException]"
| "mro SystemExit = [SystemExit, BaseException]"
| "mro KeyboardInterrupt = [KeyboardInterrupt, BaseException]"
| "mro LookupError = [LookupError, Exception, BaseException]"
| "mro IndexError = [IndexError, LookupError, Exception, BaseException]"
| "mro KeyError = [KeyError, LookupError, Exception, BaseException]"
| "mro ValueError = [ValueError, Exception, BaseException]"
| "mro TypeError = [TypeError, Exception, BaseException]"
| "mro ConanException = [ConanException, Exception, BaseException]"
| "mro ConanInvalidConfiguration =
     [ConanInvalidConfiguration, ConanException, Exception, BaseException]"
| "mro ConanInvalidSystemRequirements =
     [ConanInvalidSystemRequirements, ConanException, Exception, BaseException]"
| "mro ConanMigrationError = [ConanMigrationError, ConanException, Exception, BaseException]"
| "mro (OtherException n) = [OtherException n, Exception, BaseException]"

text \<open>
  An exception object: its class and its argument (the message, or the exit code of
  a \<^verbatim>\<open>SystemExit\<close>, read as \<^verbatim>\<open>exc.code\<close>).
\<close>

datatype exn = Exn (class_of: exc_class) (code: py_value)

definition isinstance :: "exn \<Rightarrow> exc_class \<Rightarrow> bool" where
  "isinstance exc c = (c \<in> set (mro (class_of exc)))"

subsection \<open>Output\<close>

text \<open>
  What the dispatcher writes, one event per call of a writer. The events keep which
  writer was called and with which object; the bytes of the formatted text
  (colours, \<^verbatim>\<open>%d\<close> and \<^verbatim>\<open>%s\<close> formatting, the tabular layout of the command summary)
  are not modelled. Output of the commands themselves is not part of the trace.
\<close>

datatype out_event =
    Help \<comment> \<open>the summary of all commands written by \<^verbatim>\<open>_output_help_cli\<close>\<close>
  | Version string \<comment> \<open>\<^verbatim>\<open>cli_out_write("Conan version %s" % client_version)\<close>\<close>
  | Info string \<comment> \<open>\<^verbatim>\<open>output.info(text)\<close>\<close>
  | Writeln string \<comment> \<open>\<^verbatim>\<open>output.writeln(text)\<close>\<close>
  | Error_exc exn \<comment> \<open>\<^verbatim>\<open>output.error(exc)\<close>\<close>
  | Error_exit_code int \<comment> \<open>\<^verbatim>\<open>output.error("Exiting with code: %d" % exc.code)\<close>\<close>
  | Error_msg string \<comment> \<open>\<^verbatim>\<open>output.error(msg)\<close>\<close>
  | Logger_error exn \<comment> \<open>\<^verbatim>\<open>logger.error(exc)\<close>\<close>
  | Traceback exn \<comment> \<open>\<^verbatim>\<open>print(traceback.format_exc())\<close>\<close>

subsection \<open>The dispatcher's state and environment\<close>

text \<open>
  A command wrapper, as far as \<^verbatim>\<open>Cli.run\<close> uses it:
  \<^verbatim>\<open>command.run(conan_api, parser, args)\<close> either returns (\<open>None\<close>) or raises
  (\<open>Some exc\<close>). The commands live in conans/cli/commands, outside the sources, so
  the behaviour of a command is a parameter.
\<close>

record command =
  run_command :: "string list \<Rightarrow> exn option"

text \<open>
  \<^verbatim>\<open>self._commands\<close>: a dict from command name to wrapper, in insertion order.
  \<^verbatim>\<open>self._groups\<close> only feeds the text of the summary and is left out.
\<close>

record cli =
  commands :: "(string \<times> command) list"

text \<open>
  Names \<^verbatim>\<open>Cli.run\<close> imports from outside the sources: the client version, the exit code
  for invalid system requirements, \<^verbatim>\<open>difflib.get_close_matches\<close> (with \<^verbatim>\<open>n=5, cutoff=0.75\<close>),
  \<^verbatim>\<open>str\<close> of a \<^verbatim>\<open>KeyError\<close> (the \<^verbatim>\<open>repr\<close> of the key) and
  \<^verbatim>\<open>conans.util.files.exception_message_safe\<close>.
\<close>

record env =
  client_version :: string
  ERROR_INVALID_SYSTEM_REQUIREMENTS :: int
  get_close_matches :: "string \<Rightarrow> string list \<Rightarrow> string list"
  str_KeyError :: "string \<Rightarrow> string"
  exception_message_safe :: "exn \<Rightarrow> string"

subsection \<open>\<^verbatim>\<open>Cli._print_similar\<close> and \<^verbatim>\<open>Cli._output_help_cli\<close>\<close>

definition print_similar :: "env \<Rightarrow> cli \<Rightarrow> string \<Rightarrow> out_event list" where
  "print_similar e self command =
     (let matches = get_close_matches e command (map fst (commands self)) in
      if length matches = 0 then []
      else
        [Info (if length matches > 1 then ''The most similar commands are''
               else ''The most similar command is'')]
        @ map (\<lambda>m. Info (''    '' @ m)) matches
        @ [Writeln ''''])"

text \<open>
  \<^verbatim>\<open>_output_help_cli\<close> starts with \<^verbatim>\<open>max((len(c) for c in self._commands)) + 1\<close>, which
  raises \<^verbatim>\<open>ValueError\<close> on an empty dict; otherwise it writes the summary.
\<close>

definition output_help_cli :: "cli \<Rightarrow> exn + out_event list" where
  "output_help_cli self =
     (if commands self = [] then Inl (Exn ValueError (PyStr ''max() arg is an empty sequence''))
      else Inr [Help])"

subsection \<open>\<^verbatim>\<open>Cli.run\<close>\<close>

text \<open>\<^verbatim>\<open>args[0][0]\<close>, where \<^verbatim>\<open>args\<close> is the tuple of positional arguments: \<open>None\<close> is \<^verbatim>\<open>IndexError\<close>.\<close>

fun command_argument_of :: "string list list \<Rightarrow> string option" where
  "command_argument_of [] = None"
| "command_argument_of ([] # _) = None"
| "command_argument_of ((a # _) # _) = Some a"

text \<open>How a block of statements ends: it raises, it returns from the function, or it falls through.\<close>

datatype 'a ctl = Raise exn | Return py_value | Continue 'a

text \<open>A text between single quotes, as the message of line 147 writes the argument.\<close>

definition quoted :: "string \<Rightarrow> string" where
  "quoted s = CHR 0x27 # s @ [CHR 0x27]"

text \<open>
  The first \<^verbatim>\<open>try\<close> statement (lines 130-153) without its outer handler: the look-up of the
  command. A first argument that is no key of \<^verbatim>\<open>self._commands\<close> is tested against the
  version and help flags before it is reported as unknown.
\<close>

definition lookup_command :: "env \<Rightarrow> cli \<Rightarrow> string list list \<Rightarrow> out_event list \<times> (string \<times> command) ctl" where
  "lookup_command e self args =
     (case command_argument_of args of
        None \<Rightarrow>
          (case output_help_cli self of
             Inl exc \<Rightarrow> ([], Raise exc)
           | Inr out \<Rightarrow> (out, Return (PyInt SUCCESS)))
      | Some command_argument \<Rightarrow>
          (case map_of (commands self) command_argument of
             Some command \<Rightarrow> ([], Continue (command_argument, command))
           | None \<Rightarrow>
               if command_argument \<in> set [''-v'', ''--version'']
               then ([Version (client_version e)], Return (PyInt SUCCESS))
               else if command_argument \<in> set [''-h'', ''--help'']
               then (case output_help_cli self of
                       Inl exc \<Rightarrow> ([], Raise exc)
                     | Inr out \<Rightarrow> (out, Return (PyInt SUCCESS)))
               else
                 ([Info (quoted command_argument @ '' is not a Conan command. See ''
                         @ quoted ''conan --help'' @ ''.''),
                   Info '''']
                  @ print_similar e self command_argument,
                  Raise (Exn ConanException
                           (PyStr (''Unknown command '' @ str_KeyError e command_argument))))))"

text \<open>
  The second \<^verbatim>\<open>try\<close> statement (lines 155-179): the command runs, and the handlers are
  tried in the order of the source. An exception raised inside a handler
  (\<^verbatim>\<open>"%d" % exc.code\<close> with a code that is no number) leaves \<^verbatim>\<open>run\<close>; the text of that
  \<^verbatim>\<open>TypeError\<close> differs between Python versions and is given in one form.
\<close>

definition run_and_handle :: "env \<Rightarrow> command \<Rightarrow> string list \<Rightarrow> out_event list \<times> (exn + py_value)" where
  "run_and_handle e command rest =
     (case run_command command rest of
        None \<Rightarrow> ([], Inr (PyInt SUCCESS))
      | Some exc \<Rightarrow>
          if isinstance exc SystemExit then
            (if code exc \<noteq> PyInt 0 then
               (case code exc of
                  PyInt n \<Rightarrow> ([Logger_error exc, Error_exit_code n], Inr (code exc))
                | _ \<Rightarrow> ([Logger_error exc],
                         Inl (Exn TypeError (PyStr ''%d format: a number is required''))))
             else ([], Inr (code exc)))
          else if isinstance exc ConanInvalidConfiguration then
            ([Error_exc exc], Inr (PyInt ERROR_INVALID_CONFIGURATION))
          else if isinstance exc ConanInvalidSystemRequirements then
            ([Error_exc exc], Inr (PyInt (ERROR_INVALID_SYSTEM_REQUIREMENTS e)))
          else if isinstance exc ConanException then
            ([Error_exc exc], Inr (PyInt ERROR_GENERAL))
          else if isinstance exc Exception then
            ([Traceback exc, Error_msg (exception_message_safe e exc)], Inr (PyInt ERROR_GENERAL))
          else ([], Inl exc))"

text \<open>
  \<^verbatim>\<open>Cli.run(*args)\<close>: the output written and either the exit code returned (\<open>Inr\<close>) or
  the exception that leaves the method (\<open>Inl\<close>). The remaining arguments
  \<^verbatim>\<open>args[0][1:]\<close> go to the command.
\<close>

definition run :: "env \<Rightarrow> cli \<Rightarrow> string list list \<Rightarrow> out_event list \<times> (exn + py_value)" where
  "run e self args =
     (case lookup_command e self args of
        (out, Raise exc) \<Rightarrow>
          if isinstance exc ConanException
          then (out @ [Error_exc exc], Inr (PyInt ERROR_GENERAL))
          else (out, Inl exc)
      | (out, Return v) \<Rightarrow> (out, Inr v)
      | (out, Continue (command_argument, command)) \<Rightarrow>
          (case run_and_handle e command (tl (hd args)) of
             (out', r) \<Rightarrow> (out @ out', r)))"

subsection \<open>Stand-ins for the examples\<close>

text \<open>
  An environment and a command table on which the theorems below are evaluated. The
  commands are stand-ins that only raise or return: \<open>create\<close> signals an invalid
  configuration when its arguments hold \<^verbatim>\<open>os=Windows\<close> and returns otherwise, which is
  what \<^verbatim>\<open>test_validate_create\<close> observes of the real command (exit code
  \<^verbatim>\<open>ERROR_INVALID_CONFIGURATION\<close> for \<^verbatim>\<open>-s os=Windows\<close>, success for \<^verbatim>\<open>-s os=Linux\<close>).
\<close>

definition raising :: "exn \<Rightarrow> command" where
  "raising exc = \<lparr>run_command = (\<lambda>args. Some exc)\<rparr>"

definition example_create :: command where
  "example_create =
     \<lparr>run_command = (\<lambda>args.
        if ''os=Windows'' \<in> set args
        then Some (Exn ConanInvalidConfiguration (PyStr ''pkg/0.1: Invalid: Windows not supported''))
        else None)\<rparr>"

definition example_env :: env where
  "example_env =
     \<lparr>client_version = ''2.0.0-dev'',
      ERROR_INVALID_SYSTEM_REQUIREMENTS = 7,
      get_close_matches = (\<lambda>word possibilities. []),
      str_KeyError = quoted,
      exception_message_safe = (\<lambda>exc. case code exc of PyStr s \<Rightarrow> s | _ \<Rightarrow> '''')\<rparr>"

definition example_cli :: cli where
  "example_cli =
     \<lparr>commands =
        [(''create'', example_create),
         (''fails'', raising (Exn ConanException (PyStr ''Version conflict''))),
         (''sysreq'', raising (Exn ConanInvalidSystemRequirements (PyStr ''missing''))),
         (''crash'', raising (Exn (OtherException ''RuntimeError'') (PyStr ''boom''))),
         (''usage'', raising (Exn SystemExit (PyInt 2))),
         (''quit'', raising (Exn SystemExit PyNone))]\<rparr>"

section \<open>The compatibility search\<close>

text \<open>
  The graph engine (conans/client/graph, conans/model) is not among the sources: the
  repository's files here are the dispatcher above and the integration test
  conans/test/integration/package_id/test_validate.py, which drives the engine through
  recipes with \<^verbatim>\<open>validate\<close>, \<^verbatim>\<open>compatibility\<close> and \<^verbatim>\<open>package_id\<close> methods. The recipes'
  methods are embedded from the test; the search that calls them is modelled from the
  specification's section 4.5.
\<close>

subsection \<open>Configurations\<close>

text \<open>
  Modelled from the spec: the ConfigurationModel of sections 3 and 4.1 (the settings and
  options classes are missing), a flat ordered mapping from field name to value.
\<close>

type_synonym configuration = "(string \<times> string) list"

text \<open>Modelled from the spec: \<^verbatim>\<open>get(key) -> value|absent\<close> of section 4.1.\<close>

definition cfg_get :: "configuration \<Rightarrow> string \<Rightarrow> string option" where
  "cfg_get m k = map_of m k"

text \<open>
  Modelled from the spec: \<^verbatim>\<open>set(key, value)\<close> of section 4.1 on the ordered mapping: a field
  that is present keeps its position, a new one is added at the end.
\<close>

fun cfg_set :: "configuration \<Rightarrow> string \<Rightarrow> string \<Rightarrow> configuration" where
  "cfg_set [] k v = [(k, v)]"
| "cfg_set ((k', v') # m) k v = (if k' = k then (k, v) # m else (k', v') # cfg_set m k v)"

text \<open>
  Modelled from the spec: a CompatibilityCandidate (section 3) is a set of field
  substitutions; the candidate's model is the node's model with them applied.
\<close>

definition substitute :: "configuration \<Rightarrow> (string \<times> string) list \<Rightarrow> configuration" where
  "substitute m subs = foldl (\<lambda>m' (k, v). cfg_set m' k v) m subs"

subsection \<open>Hooks and nodes\<close>

text \<open>
  Modelled from the spec: the callback slots of a package definition (section 9) that the
  search uses. \<open>validate\<close> gives \<open>Some reason\<close> when the hook signals
  \<^verbatim>\<open>InvalidConfiguration(reason)\<close> and \<open>None\<close> when it passes; \<open>compatibility\<close> gives
  the ordered list of candidates, each a list of substitutions.
\<close>

record hooks =
  validate :: "configuration \<Rightarrow> string option"
  compatibility :: "configuration \<Rightarrow> (string \<times> string) list list"

text \<open>
  Modelled from the spec: the fields of a Node (section 3) that the search reads and
  writes: the reference, the ConfigurationModel, the PackageID and the
  CompatibilityFallback (requested ID, selected candidate ID). The BinaryStatus and the
  InvalidReason are assigned by the evaluators of sections 4.4 and 4.6, which are not
  modelled.
\<close>

record node =
  reference :: string
  configuration :: configuration
  package_id :: string
  fallback :: "(string \<times> string) option"

subsection \<open>The search\<close>

text \<open>
  Modelled from the spec: the loop of section 4.5 over the candidates in order (the
  Compatibility Explorer is missing). For each candidate: recompute the PackageID under
  the candidate model (step 1); re-run the validation and skip a candidate that is
  invalid (step 2); query the binary store for the candidate's ID (step 3); the first
  candidate that is valid and has a binary is selected (step 4). The identity
  calculator \<open>pid\<close> and the binary store's \<^verbatim>\<open>exists\<close> are parameters.
\<close>

fun first_match ::
  "hooks \<Rightarrow> (configuration \<Rightarrow> string) \<Rightarrow> (string \<Rightarrow> bool) \<Rightarrow> configuration list \<Rightarrow> string option" where
  "first_match h pid store [] = None"
| "first_match h pid store (c # cs) =
     (let candidate_id = pid c in
      if validate h c \<noteq> None then first_match h pid store cs
      else if store candidate_id then Some candidate_id
      else first_match h pid store cs)"

text \<open>Modelled from the spec: the candidate models that the node's compatibility hook proposes.\<close>

definition candidate_models :: "hooks \<Rightarrow> node \<Rightarrow> configuration list" where
  "candidate_models h n = map (substitute (configuration n)) (compatibility h (configuration n))"

text \<open>
  Modelled from the spec: the Compatibility Explorer of section 4.5, which is missing.
  The hook is consulted when the node's primary PackageID has no existing binary. A
  build from source that the build policy requests for the reference is decided
  without the search (section 4.6: Build "requested"); \<open>build_forced\<close> says that the
  policy does so, as \<^verbatim>\<open>create\<close> and \<^verbatim>\<open>--build=pkg*\<close> do in the test (lines 128-134 and
  155-156, where the node keeps its primary ID) and \<^verbatim>\<open>--build=missing\<close> does not (lines
  143-147). When the search selects a candidate, its ID becomes the node's effective
  PackageID and the node records the fallback mapping (requested ID, selected ID); when
  no candidate matches the node is unchanged.
\<close>

definition compatibility_explorer ::
  "hooks \<Rightarrow> (configuration \<Rightarrow> string) \<Rightarrow> (string \<Rightarrow> bool) \<Rightarrow> bool \<Rightarrow> node \<Rightarrow> node" where
  "compatibility_explorer h pid store build_forced n =
     (if build_forced \<or> store (package_id n) then n
      else
        (case first_match h pid store (candidate_models h n) of
           None \<Rightarrow> n
         | Some candidate_id \<Rightarrow>
             n\<lparr>package_id := candidate_id, fallback := Some (package_id n, candidate_id)\<rparr>))"

subsection \<open>The recipes of the test\<close>

text \<open>
  The \<^verbatim>\<open>validate\<close> method of the recipes in test_validate.py (lines 25-27, 110-112):
  \<^verbatim>\<open>if self.info.settings.os == "Windows": raise ConanInvalidConfiguration("Windows not supported")\<close>.
\<close>

definition validate_not_windows :: "configuration \<Rightarrow> string option" where
  "validate_not_windows info =
     (if cfg_get info ''os'' = Some ''Windows'' then Some ''Windows not supported'' else None)"

text \<open>
  The \<^verbatim>\<open>compatibility\<close> method of \<^verbatim>\<open>test_validate_compatible\<close> (lines 114-116):
  \<^verbatim>\<open>if self.settings.os == "Windows": return [{"settings": [("os", "Linux")]}]\<close>;
  falling off the end returns \<^verbatim>\<open>None\<close>, no candidate.
\<close>

definition compatibility_linux :: "configuration \<Rightarrow> (string \<times> string) list list" where
  "compatibility_linux settings =
     (if cfg_get settings ''os'' = Some ''Windows'' then [[(''os'', ''Linux'')]] else [])"

definition test_validate_compatible_hooks :: hooks where
  "test_validate_compatible_hooks =
     \<lparr>validate = validate_not_windows, compatibility = compatibility_linux\<rparr>"

text \<open>
  The package IDs that \<^verbatim>\<open>test_validate_compatible\<close> lists for its recipe (lines 122-123):
  \<^verbatim>\<open>package_id\<close> for \<^verbatim>\<open>os=Linux\<close> and \<^verbatim>\<open>missing_id\<close> for \<^verbatim>\<open>os=Windows\<close>. The hashing is outside
  the sources; for any other configuration this stand-in gives the empty string.
\<close>

definition test_package_id :: "configuration \<Rightarrow> string" where
  "test_package_id m =
     (if m = [(''os'', ''Linux'')] then ''9a4eb3c8701508aa9458b1a73d0633783ecc2270''
      else if m = [(''os'', ''Windows'')] then ''ebec3dc6d7f6b907b3ada0c3d3cdc83613a2b715''
      else '''')"

text \<open>The node \<^verbatim>\<open>pkg/0.1\<close> requested with \<^verbatim>\<open>-s os=Windows\<close> (lines 128-156), before the search.\<close>

definition pkg_windows :: node where
  "pkg_windows =
     \<lparr>reference = ''pkg/0.1'',
      configuration = [(''os'', ''Windows'')],
      package_id = ''ebec3dc6d7f6b907b3ada0c3d3cdc83613a2b715'',
      fallback = None\<rparr>"

text \<open>The binary store after line 121: the package created for \<^verbatim>\<open>os=Linux\<close>.\<close>

definition store_linux :: "string \<Rightarrow> bool" where
  "store_linux i = (i = ''9a4eb3c8701508aa9458b1a73d0633783ecc2270'')"

subsection \<open>A recipe with several candidates\<close>

text \<open>
  The recipes of the test propose one candidate each. For lists of several candidates:
  a recipe with the \<^verbatim>\<open>validate\<close> method of the test whose compatibility hook proposes
  the given candidates; an identity calculator that writes the fields out, so that
  different configurations have different IDs; the node \<^verbatim>\<open>pkg/0.1\<close> requested with
  \<^verbatim>\<open>os=Linux\<close> and \<^verbatim>\<open>build_type=Debug\<close>; and a store given by the list of the IDs it
  holds.
\<close>

definition proposing :: "(string \<times> string) list list \<Rightarrow> hooks" where
  "proposing candidates =
     \<lparr>validate = validate_not_windows, compatibility = (\<lambda>settings. candidates)\<rparr>"

definition written_out :: "configuration \<Rightarrow> string" where
  "written_out m = concat (map (\<lambda>(k, v). k @ ''='' @ v @ '';'') m)"

definition pkg_linux_debug :: node where
  "pkg_linux_debug =
     \<lparr>reference = ''pkg/0.1'',
      configuration = [(''os'', ''Linux''), (''build_type'', ''Debug'')],
      package_id = ''os=Linux;build_type=Debug;'',
      fallback = None\<rparr>"

definition holding :: "string list \<Rightarrow> string \<Rightarrow> bool" where
  "holding ids i = (i \<in> set ids)"

section \<open>Properties of the dispatcher\<close>

subsection \<open>Which handler an exception reaches\<close>

lemma isinstance_ConanInvalidConfiguration:
  "isinstance exc ConanInvalidConfiguration \<longleftrightarrow> class_of exc = ConanInvalidConfiguration"
  by (cases "class_of exc") (simp_all add: isinstance_def)

lemma isinstance_ConanInvalidSystemRequirements:
  "isinstance exc ConanInvalidSystemRequirements \<longleftrightarrow>
   class_of exc = ConanInvalidSystemRequirements"
  by (cases "class_of exc") (simp_all add: isinstance_def)

lemma isinstance_SystemExit:
  "isinstance exc SystemExit \<longleftrightarrow> class_of exc = SystemExit"
  by (cases "class_of exc") (simp_all add: isinstance_def)

lemma Exception_not_SystemExit:
  "isinstance exc Exception \<Longrightarrow> \<not> isinstance exc SystemExit"
  by (cases "class_of exc") (simp_all add: isinstance_def)

lemma ConanException_is_Exception:
  "isinstance exc ConanException \<Longrightarrow> isinstance exc Exception"
  by (cases "class_of exc") (simp_all add: isinstance_def)

subsection \<open>The handlers of the second \<^verbatim>\<open>try\<close> statement\<close>

lemma handle_returns:
  "run_command c rest = None \<Longrightarrow> run_and_handle e c rest = ([], Inr (PyInt SUCCESS))"
  by (simp add: run_and_handle_def)

lemma handle_SystemExit_int:
  assumes "run_command c rest = Some exc" and "isinstance exc SystemExit"
    and "code exc = PyInt n"
  shows "snd (run_and_handle e c rest) = Inr (PyInt n)"
  using assms by (simp add: run_and_handle_def)

lemma handle_SystemExit_other:
  assumes "run_command c rest = Some exc" and "isinstance exc SystemExit"
    and "\<forall>n. code exc \<noteq> PyInt n"
  shows "\<exists>x. snd (run_and_handle e c rest) = Inl x \<and> class_of x = TypeError"
  using assms by (cases "code exc") (simp_all add: run_and_handle_def)

lemma handle_ConanInvalidConfiguration:
  assumes "run_command c rest = Some exc" and "isinstance exc ConanInvalidConfiguration"
  shows "run_and_handle e c rest = ([Error_exc exc], Inr (PyInt ERROR_INVALID_CONFIGURATION))"
proof -
  from assms(2) have "\<not> isinstance exc SystemExit"
    by (simp add: isinstance_ConanInvalidConfiguration isinstance_SystemExit)
  with assms show ?thesis by (simp add: run_and_handle_def)
qed

lemma handle_ConanInvalidSystemRequirements:
  assumes "run_command c rest = Some exc" and "isinstance exc ConanInvalidSystemRequirements"
  shows "run_and_handle e c rest =
         ([Error_exc exc], Inr (PyInt (ERROR_INVALID_SYSTEM_REQUIREMENTS e)))"
proof -
  from assms(2) have "\<not> isinstance exc SystemExit" "\<not> isinstance exc ConanInvalidConfiguration"
    by (simp_all add: isinstance_ConanInvalidConfiguration isinstance_SystemExit
        isinstance_ConanInvalidSystemRequirements)
  with assms show ?thesis by (simp add: run_and_handle_def)
qed

lemma handle_other_Exception:
  assumes "run_command c rest = Some exc" and "isinstance exc Exception"
    and "\<not> isinstance exc ConanInvalidConfiguration"
    and "\<not> isinstance exc ConanInvalidSystemRequirements"
  shows "snd (run_and_handle e c rest) = Inr (PyInt ERROR_GENERAL)"
proof -
  from assms(2) have "\<not> isinstance exc SystemExit"
    by (rule Exception_not_SystemExit)
  with assms show ?thesis by (simp add: run_and_handle_def)
qed

subsection \<open>The three ways through \<^verbatim>\<open>run\<close>\<close>

lemma run_no_arguments:
  assumes "commands self \<noteq> []" and "command_argument_of args = None"
  shows "run e self args = ([Help], Inr (PyInt SUCCESS))"
  using assms by (simp add: run_def lookup_command_def output_help_cli_def)

lemma run_not_a_command:
  assumes "commands self \<noteq> []" and "command_argument_of args = Some a"
    and "map_of (commands self) a = None"
  shows "snd (run e self args) =
         Inr (PyInt (if a \<in> set [''-v'', ''--version'', ''-h'', ''--help'']
                     then SUCCESS else ERROR_GENERAL))"
  using assms by (simp add: run_def lookup_command_def output_help_cli_def isinstance_def)

lemma run_command_found:
  assumes "command_argument_of args = Some a" and "map_of (commands self) a = Some c"
  shows "snd (run e self args) = snd (run_and_handle e c (tl (hd args)))"
  using assms by (simp add: run_def lookup_command_def split: prod.splits)

text \<open>
  An empty command table is the one state in which the summary itself raises; the
  constructor fills the table from the modules of conans/cli/commands.
\<close>

lemma help_without_commands:
  "run e \<lparr>commands = []\<rparr> [[]] =
   ([], Inl (Exn ValueError (PyStr ''max() arg is an empty sequence'')))"
  by (simp add: run_def lookup_command_def output_help_cli_def isinstance_def)

subsection \<open>The exit code of every call\<close>

text \<open>
  Claim C10, as stated, fails on the code in two places. A first argument that is no
  registered command does not always give \<^verbatim>\<open>ERROR_GENERAL\<close>: the flags \<^verbatim>\<open>-v\<close>,
  \<^verbatim>\<open>--version\<close>, \<^verbatim>\<open>-h\<close> and \<^verbatim>\<open>--help\<close> are tested in the \<^verbatim>\<open>KeyError\<close> handler and
  give \<^verbatim>\<open>SUCCESS\<close> (lines 139-145). And an exception can leave \<^verbatim>\<open>run\<close>: for a command that
  calls \<^verbatim>\<open>sys.exit()\<close> the handler formats \<^verbatim>\<open>"%d" % None\<close> (line 161), which raises
  \<^verbatim>\<open>TypeError\<close> inside the handler, so neither the exit's own code nor any other is
  returned.
\<close>

theorem run_exit_code_counterexample:
  "map_of (commands example_cli) ''--version'' = None
   \<and> snd (run example_env example_cli [[''--version'']]) = Inr (PyInt SUCCESS)
   \<and> SUCCESS \<noteq> ERROR_GENERAL
   \<and> map_of (commands example_cli) ''quit'' = Some (raising (Exn SystemExit PyNone))
   \<and> run_command (raising (Exn SystemExit PyNone)) [] = Some (Exn SystemExit PyNone)
   \<and> snd (run example_env example_cli [[''quit'']])
       = Inl (Exn TypeError (PyStr ''%d format: a number is required''))"
  by (simp add: run_def lookup_command_def run_and_handle_def example_cli_def raising_def
      isinstance_def SUCCESS_def ERROR_GENERAL_def)

text \<open>
  Claim C10, amended. Let the command table be non-empty, and let the command that
  the first argument selects, if any, either return, raise an exception deriving from
  \<^verbatim>\<open>Exception\<close>, or raise \<^verbatim>\<open>SystemExit\<close> with an integer code. Then \<^verbatim>\<open>Cli.run\<close>
  returns an integer exit code and no exception leaves it:
  \<^item> without a first argument it writes the command summary and returns \<^verbatim>\<open>SUCCESS\<close>;
  \<^item> a first argument that is no registered command gives \<^verbatim>\<open>SUCCESS\<close> when it is one of
    \<^verbatim>\<open>-v\<close>, \<^verbatim>\<open>--version\<close>, \<^verbatim>\<open>-h\<close>, \<^verbatim>\<open>--help\<close>, and \<^verbatim>\<open>ERROR_GENERAL\<close> (1) otherwise;
  \<^item> a registered command that returns gives \<^verbatim>\<open>SUCCESS\<close> (0); one that raises
    \<^verbatim>\<open>ConanInvalidConfiguration\<close> gives \<^verbatim>\<open>ERROR_INVALID_CONFIGURATION\<close> (6); one that raises
    \<^verbatim>\<open>ConanInvalidSystemRequirements\<close> gives \<^verbatim>\<open>ERROR_INVALID_SYSTEM_REQUIREMENTS\<close>; one that
    raises any other \<^verbatim>\<open>ConanException\<close> or \<^verbatim>\<open>Exception\<close> gives \<^verbatim>\<open>ERROR_GENERAL\<close> (1); one
    that raises \<^verbatim>\<open>SystemExit\<close> with an integer code gives that code.
\<close>

theorem run_returns_exit_code:
  assumes table: "commands self \<noteq> []"
    and raised: "\<forall>a c exc. command_argument_of args = Some a \<and> map_of (commands self) a = Some c
                   \<and> run_command c (tl (hd args)) = Some exc
                 \<longrightarrow> isinstance exc Exception
                     \<or> (isinstance exc SystemExit \<and> (\<exists>n. code exc = PyInt n))"
  shows "(\<exists>n. snd (run e self args) = Inr (PyInt n))
       \<and> (command_argument_of args = None \<longrightarrow> run e self args = ([Help], Inr (PyInt SUCCESS)))
       \<and> (\<forall>a. command_argument_of args = Some a \<and> map_of (commands self) a = None \<longrightarrow>
            snd (run e self args) =
              Inr (PyInt (if a \<in> set [''-v'', ''--version'', ''-h'', ''--help'']
                          then SUCCESS else ERROR_GENERAL)))
       \<and> (\<forall>a c. command_argument_of args = Some a \<and> map_of (commands self) a = Some c \<longrightarrow>
            (run_command c (tl (hd args)) = None \<longrightarrow>
               snd (run e self args) = Inr (PyInt SUCCESS))
          \<and> (\<forall>exc. run_command c (tl (hd args)) = Some exc \<longrightarrow>
               (isinstance exc ConanInvalidConfiguration \<longrightarrow>
                  snd (run e self args) = Inr (PyInt ERROR_INVALID_CONFIGURATION))
             \<and> (isinstance exc ConanInvalidSystemRequirements \<longrightarrow>
                  snd (run e self args) = Inr (PyInt (ERROR_INVALID_SYSTEM_REQUIREMENTS e)))
             \<and> (isinstance exc Exception \<and> \<not> isinstance exc ConanInvalidConfiguration
                  \<and> \<not> isinstance exc ConanInvalidSystemRequirements \<longrightarrow>
                  snd (run e self args) = Inr (PyInt ERROR_GENERAL))
             \<and> (\<forall>n. isinstance exc SystemExit \<and> code exc = PyInt n \<longrightarrow>
                  snd (run e self args) = Inr (PyInt n))))
       \<and> SUCCESS = 0 \<and> ERROR_GENERAL = 1 \<and> ERROR_INVALID_CONFIGURATION = 6"
proof -
  have none: "run e self args = ([Help], Inr (PyInt SUCCESS))"
    if "command_argument_of args = None"
    using table that by (rule run_no_arguments)
  have unknown: "snd (run e self args) =
      Inr (PyInt (if a \<in> set [''-v'', ''--version'', ''-h'', ''--help'']
                  then SUCCESS else ERROR_GENERAL))"
    if "command_argument_of args = Some a" "map_of (commands self) a = None" for a
    using table that by (rule run_not_a_command)
  have found: "snd (run e self args) = snd (run_and_handle e c (tl (hd args)))"
    if "command_argument_of args = Some a" "map_of (commands self) a = Some c" for a c
    using that by (rule run_command_found)
  have returns: "snd (run e self args) = Inr (PyInt SUCCESS)"
    if "command_argument_of args = Some a" "map_of (commands self) a = Some c"
      "run_command c (tl (hd args)) = None" for a c
    using found [OF that(1,2)] handle_returns [OF that(3)] by simp
  have cfg: "snd (run e self args) = Inr (PyInt ERROR_INVALID_CONFIGURATION)"
    if "command_argument_of args = Some a" "map_of (commands self) a = Some c"
      "run_command c (tl (hd args)) = Some exc" "isinstance exc ConanInvalidConfiguration"
    for a c exc
    using found [OF that(1,2)] handle_ConanInvalidConfiguration [OF that(3,4)] by simp
  have sysreq: "snd (run e self args) = Inr (PyInt (ERROR_INVALID_SYSTEM_REQUIREMENTS e))"
    if "command_argument_of args = Some a" "map_of (commands self) a = Some c"
      "run_command c (tl (hd args)) = Some exc" "isinstance exc ConanInvalidSystemRequirements"
    for a c exc
    using found [OF that(1,2)] handle_ConanInvalidSystemRequirements [OF that(3,4)] by simp
  have general: "snd (run e self args) = Inr (PyInt ERROR_GENERAL)"
    if "command_argument_of args = Some a" "map_of (commands self) a = Some c"
      "run_command c (tl (hd args)) = Some exc" "isinstance exc Exception"
      "\<not> isinstance exc ConanInvalidConfiguration"
      "\<not> isinstance exc ConanInvalidSystemRequirements"
    for a c exc
    using found [OF that(1,2)] handle_other_Exception [OF that(3,4,5,6)] by simp
  have exits: "snd (run e self args) = Inr (PyInt n)"
    if "command_argument_of args = Some a" "map_of (commands self) a = Some c"
      "run_command c (tl (hd args)) = Some exc" "isinstance exc SystemExit" "code exc = PyInt n"
    for a c exc n
    using found [OF that(1,2)] handle_SystemExit_int [OF that(3,4,5)] by simp
  have total: "\<exists>n. snd (run e self args) = Inr (PyInt n)"
  proof (cases "command_argument_of args")
    case None
    then show ?thesis using none by simp
  next
    case (Some a)
    show ?thesis
    proof (cases "map_of (commands self) a")
      case None
      then show ?thesis using unknown [OF Some] by simp
    next
      case c: (Some c)
      show ?thesis
      proof (cases "run_command c (tl (hd args))")
        case None
        then show ?thesis using returns [OF Some c] by simp
      next
        case exc: (Some exc)
        from raised Some c exc
        consider "isinstance exc Exception"
          | n where "isinstance exc SystemExit" "code exc = PyInt n"
          by blast
        then show ?thesis
        proof cases
          case 1
          show ?thesis
          proof (cases "isinstance exc ConanInvalidConfiguration")
            case True
            then show ?thesis using cfg [OF Some c exc] by simp
          next
            case False
            show ?thesis
            proof (cases "isinstance exc ConanInvalidSystemRequirements")
              case True
              then show ?thesis using sysreq [OF Some c exc] by simp
            next
              case False
              with 1 \<open>\<not> isinstance exc ConanInvalidConfiguration\<close>
              show ?thesis using general [OF Some c exc] by simp
            qed
          qed
        next
          case 2
          then show ?thesis using exits [OF Some c exc] by simp
        qed
      qed
    qed
  qed
  show ?thesis
    using total none unknown returns cfg sysreq general exits
    by (simp add: SUCCESS_def ERROR_GENERAL_def ERROR_INVALID_CONFIGURATION_def)
qed

text \<open>
  The amended claim evaluated: no argument, an unknown command, the command line of
  \<^verbatim>\<open>test_validate_create\<close> for \<^verbatim>\<open>os=Windows\<close>, and a command that exits with code 2.
\<close>

theorem run_returns_exit_code_witness:
  "commands example_cli \<noteq> []
   \<and> run example_env example_cli [[]] = ([Help], Inr (PyInt 0))
   \<and> snd (run example_env example_cli [[''frobnicate'']]) = Inr (PyInt 1)
   \<and> snd (run example_env example_cli [[''create'', ''.'', ''-s'', ''os=Windows'']]) = Inr (PyInt 6)
   \<and> snd (run example_env example_cli [[''usage'']]) = Inr (PyInt 2)"
proof -
  have table: "commands example_cli \<noteq> []"
    by (simp add: example_cli_def)
  let ?ok = "\<lambda>args. \<forall>a c exc. command_argument_of args = Some a
                 \<and> map_of (commands example_cli) a = Some c
                 \<and> run_command c (tl (hd args)) = Some exc
               \<longrightarrow> isinstance exc Exception
                   \<or> (isinstance exc SystemExit \<and> (\<exists>n. code exc = PyInt n))"
  have "?ok [[]]"
    by simp
  from run_returns_exit_code [OF table this, of example_env]
  have none: "run example_env example_cli [[]] = ([Help], Inr (PyInt 0))"
    by (simp add: SUCCESS_def)
  have unknown_key: "map_of (commands example_cli) ''frobnicate'' = None"
    by (simp add: example_cli_def)
  then have "?ok [[''frobnicate'']]"
    by simp
  from run_returns_exit_code [OF table this, of example_env] unknown_key
  have unknown: "snd (run example_env example_cli [[''frobnicate'']]) = Inr (PyInt 1)"
    by (simp add: ERROR_GENERAL_def)
  let ?windows = "[[''create'', ''.'', ''-s'', ''os=Windows'']]"
  let ?invalid = "Exn ConanInvalidConfiguration (PyStr ''pkg/0.1: Invalid: Windows not supported'')"
  have create_key: "map_of (commands example_cli) ''create'' = Some example_create"
    by (simp add: example_cli_def)
  have create_raises: "run_command example_create (tl (hd ?windows)) = Some ?invalid"
    by (simp add: example_create_def)
  have is_invalid: "isinstance ?invalid ConanInvalidConfiguration" "isinstance ?invalid Exception"
    by (simp_all add: isinstance_def)
  from create_key create_raises is_invalid have "?ok ?windows"
    by simp
  from run_returns_exit_code [OF table this, of example_env] create_key create_raises is_invalid
  have invalid: "snd (run example_env example_cli ?windows) = Inr (PyInt 6)"
    by (simp add: ERROR_INVALID_CONFIGURATION_def)
  let ?exit = "Exn SystemExit (PyInt 2)"
  have usage_key: "map_of (commands example_cli) ''usage'' = Some (raising ?exit)"
    by (simp add: example_cli_def)
  have usage_raises: "run_command (raising ?exit) (tl (hd [[''usage'']])) = Some ?exit"
    by (simp add: raising_def)
  have is_exit: "isinstance ?exit SystemExit"
    by (simp add: isinstance_def)
  from usage_key usage_raises is_exit have "?ok [[''usage'']]"
    by simp
  from run_returns_exit_code [OF table this, of example_env] usage_key usage_raises is_exit
  have exits: "snd (run example_env example_cli [[''usage'']]) = Inr (PyInt 2)"
    by simp
  from table none unknown invalid exits show ?thesis
    by simp
qed

section \<open>Properties of the compatibility search\<close>

lemma first_match_skips:
  assumes "\<forall>x \<in> set pre. validate h x \<noteq> None \<or> \<not> store (pid x)"
  shows "first_match h pid store (pre @ cs) = first_match h pid store cs"
  using assms by (induction pre) (auto simp: Let_def)

lemma first_match_selects:
  assumes "\<forall>x \<in> set pre. validate h x \<noteq> None \<or> \<not> store (pid x)"
    and "validate h c = None" and "store (pid c)"
  shows "first_match h pid store (pre @ c # post) = Some (pid c)"
  using assms by (simp add: first_match_skips)

text \<open>The search is not run when the build is forced or the primary ID has a binary.\<close>

lemma compatibility_explorer_not_consulted:
  "build_forced \<or> store (package_id n) \<Longrightarrow> compatibility_explorer h pid store build_forced n = n"
  by (simp add: compatibility_explorer_def)

text \<open>
  With a forced build (\<^verbatim>\<open>create\<close>, \<^verbatim>\<open>--build=pkg*\<close>) the node of the test keeps the ID the
  test lists with \<^verbatim>\<open>Invalid\<close> (lines 130 and 156) and records no fallback.
\<close>

lemma pkg_windows_forced_build:
  "package_id (compatibility_explorer test_validate_compatible_hooks test_package_id
        store_linux True pkg_windows) = ''ebec3dc6d7f6b907b3ada0c3d3cdc83613a2b715''
   \<and> fallback (compatibility_explorer test_validate_compatible_hooks test_package_id
        store_linux True pkg_windows) = None"
  by (simp add: compatibility_explorer_not_consulted pkg_windows_def)

text \<open>
  Claim C4. In the compatibility search, that is when the build of the reference is not
  forced and the node's primary PackageID has no existing binary, for every ordered
  candidate list the first candidate that is valid and has an existing binary is
  selected (every candidate before it is invalid or has no binary): its ID becomes the
  node's effective PackageID and the fallback mapping from the requested ID to the
  selected ID is recorded. When the candidates are C1 and C2 and both have existing
  binaries, the effective ID is C1's; the candidates of the claim are valid ones, as
  its first part and step 2 of section 4.5 say, and the validity of C1 is all the
  theorem uses.
\<close>

theorem compatibility_explorer_first_match:
  assumes "\<not> build_forced" and "\<not> store (package_id n)"
  shows
    "(\<forall>pre c post.
        candidate_models h n = pre @ c # post
        \<and> (\<forall>x \<in> set pre. validate h x \<noteq> None \<or> \<not> store (pid x))
        \<and> validate h c = None \<and> store (pid c)
        \<longrightarrow> package_id (compatibility_explorer h pid store build_forced n) = pid c
          \<and> fallback (compatibility_explorer h pid store build_forced n)
              = Some (package_id n, pid c))
     \<and> (\<forall>c1 c2.
        candidate_models h n = [c1, c2] \<and> validate h c1 = None
        \<and> store (pid c1) \<and> store (pid c2)
        \<longrightarrow> package_id (compatibility_explorer h pid store build_forced n) = pid c1)"
proof (intro conjI allI impI)
  fix pre c post
  assume "candidate_models h n = pre @ c # post
      \<and> (\<forall>x \<in> set pre. validate h x \<noteq> None \<or> \<not> store (pid x))
      \<and> validate h c = None \<and> store (pid c)"
  then have "first_match h pid store (candidate_models h n) = Some (pid c)"
    by (simp add: first_match_selects)
  with assms show "package_id (compatibility_explorer h pid store build_forced n) = pid c"
    and "fallback (compatibility_explorer h pid store build_forced n)
           = Some (package_id n, pid c)"
    by (simp_all add: compatibility_explorer_def)
next
  fix c1 c2
  assume "candidate_models h n = [c1, c2] \<and> validate h c1 = None
      \<and> store (pid c1) \<and> store (pid c2)"
  then have "first_match h pid store (candidate_models h n) = Some (pid c1)"
    by simp
  with assms show "package_id (compatibility_explorer h pid store build_forced n) = pid c1"
    by (simp add: compatibility_explorer_def)
qed

text \<open>
  The claim on \<^verbatim>\<open>test_validate_compatible\<close> (lines 136-140): \<^verbatim>\<open>pkg/0.1\<close> installed with
  \<^verbatim>\<open>os=Windows\<close> and no forced build, one candidate \<^verbatim>\<open>os=Linux\<close> whose binary exists. The
  effective ID is the one the test lists as \<^verbatim>\<open>Cache\<close>, and the fallback is the pair of
  the test's message
  \<^verbatim>\<open>Main binary package 'ebec...' missing. Using compatible package '9a4e...'\<close>. Then on the
  node requested with \<^verbatim>\<open>os=Linux\<close> and \<^verbatim>\<open>build_type=Debug\<close>: with the candidates
  \<^verbatim>\<open>os=Windows\<close> (invalid), \<^verbatim>\<open>build_type=RelWithDebInfo\<close> (no binary) and
  \<^verbatim>\<open>build_type=Release\<close> (valid, with a binary) the third is selected; with the candidates
  \<^verbatim>\<open>build_type=Release\<close> and \<^verbatim>\<open>build_type=RelWithDebInfo\<close>, both valid and with binaries,
  the first is.
\<close>

theorem compatibility_explorer_first_match_witness:
  "package_id (compatibility_explorer test_validate_compatible_hooks test_package_id
        store_linux False pkg_windows) = ''9a4eb3c8701508aa9458b1a73d0633783ecc2270''
   \<and> fallback (compatibility_explorer test_validate_compatible_hooks test_package_id
        store_linux False pkg_windows)
       = Some (''ebec3dc6d7f6b907b3ada0c3d3cdc83613a2b715'',
               ''9a4eb3c8701508aa9458b1a73d0633783ecc2270'')
   \<and> package_id (compatibility_explorer
        (proposing [[(''os'', ''Windows'')], [(''build_type'', ''RelWithDebInfo'')],
                    [(''build_type'', ''Release'')]])
        written_out (holding [''os=Linux;build_type=Release;'']) False pkg_linux_debug)
       = ''os=Linux;build_type=Release;''
   \<and> package_id (compatibility_explorer
        (proposing [[(''build_type'', ''Release'')], [(''build_type'', ''RelWithDebInfo'')]])
        written_out
        (holding [''os=Linux;build_type=Release;'', ''os=Linux;build_type=RelWithDebInfo;''])
        False pkg_linux_debug)
       = ''os=Linux;build_type=Release;''"
proof -
  \<comment> \<open>the scenario of the test: no candidate before the selected one\<close>
  let ?linux = "[(''os'', ''Linux'')]"
  let ?h = test_validate_compatible_hooks
  have linux_id: "test_package_id ?linux = ''9a4eb3c8701508aa9458b1a73d0633783ecc2270''"
    by (simp add: test_package_id_def)
  have requested: "package_id pkg_windows = ''ebec3dc6d7f6b907b3ada0c3d3cdc83613a2b715''"
    by (simp add: pkg_windows_def)
  have missing: "\<not> store_linux (package_id pkg_windows)"
    by (simp add: requested store_linux_def)
  have models: "candidate_models ?h pkg_windows = [] @ ?linux # []"
    by (simp add: candidate_models_def test_validate_compatible_hooks_def pkg_windows_def
        compatibility_linux_def substitute_def cfg_get_def)
  have earlier: "\<forall>x \<in> set []. validate ?h x \<noteq> None \<or> \<not> store_linux (test_package_id x)"
    by simp
  have valid: "validate ?h ?linux = None"
    by (simp add: test_validate_compatible_hooks_def validate_not_windows_def cfg_get_def)
  have stored: "store_linux (test_package_id ?linux)"
    by (simp add: linux_id store_linux_def)
  from compatibility_explorer_first_match [of False store_linux pkg_windows ?h test_package_id]
    missing models earlier valid stored
  have test: "package_id (compatibility_explorer ?h test_package_id store_linux False pkg_windows)
          = test_package_id ?linux
      \<and> fallback (compatibility_explorer ?h test_package_id store_linux False pkg_windows)
          = Some (package_id pkg_windows, test_package_id ?linux)"
    by blast
  \<comment> \<open>the node requested with Linux and Debug, and its candidate models\<close>
  let ?windows = "[(''os'', ''Windows''), (''build_type'', ''Debug'')]"
  let ?relwithdebinfo = "[(''os'', ''Linux''), (''build_type'', ''RelWithDebInfo'')]"
  let ?release = "[(''os'', ''Linux''), (''build_type'', ''Release'')]"
  have ids: "written_out ?windows = ''os=Windows;build_type=Debug;''"
    "written_out ?relwithdebinfo = ''os=Linux;build_type=RelWithDebInfo;''"
    "written_out ?release = ''os=Linux;build_type=Release;''"
    by (simp_all add: written_out_def)
  have validity: "validate_not_windows ?windows \<noteq> None"
    "validate_not_windows ?relwithdebinfo = None" "validate_not_windows ?release = None"
    by (simp_all add: validate_not_windows_def cfg_get_def)
  have debug_id: "package_id pkg_linux_debug = ''os=Linux;build_type=Debug;''"
    by (simp add: pkg_linux_debug_def)
  \<comment> \<open>an invalid candidate and one without a binary before the selected one\<close>
  let ?three = "proposing [[(''os'', ''Windows'')], [(''build_type'', ''RelWithDebInfo'')],
                           [(''build_type'', ''Release'')]]"
  let ?one = "holding [''os=Linux;build_type=Release;'']"
  have missing_3: "\<not> ?one (package_id pkg_linux_debug)"
    by (simp add: debug_id holding_def)
  have models_3: "candidate_models ?three pkg_linux_debug
      = [?windows, ?relwithdebinfo] @ ?release # []"
    by (simp add: candidate_models_def proposing_def pkg_linux_debug_def substitute_def)
  have earlier_3: "\<forall>x \<in> set [?windows, ?relwithdebinfo].
      validate ?three x \<noteq> None \<or> \<not> ?one (written_out x)"
    using validity(1) by (simp add: proposing_def ids holding_def)
  have valid_3: "validate ?three ?release = None"
    using validity(3) by (simp add: proposing_def)
  have stored_3: "?one (written_out ?release)"
    by (simp add: ids holding_def)
  from compatibility_explorer_first_match [of False ?one pkg_linux_debug ?three written_out]
    missing_3 models_3 earlier_3 valid_3 stored_3
  have third: "package_id (compatibility_explorer ?three written_out ?one False pkg_linux_debug)
      = written_out ?release"
    by blast
  \<comment> \<open>two valid candidates with binaries\<close>
  let ?two = "proposing [[(''build_type'', ''Release'')], [(''build_type'', ''RelWithDebInfo'')]]"
  let ?both = "holding [''os=Linux;build_type=Release;'', ''os=Linux;build_type=RelWithDebInfo;'']"
  have missing_2: "\<not> ?both (package_id pkg_linux_debug)"
    by (simp add: debug_id holding_def)
  have models_2: "candidate_models ?two pkg_linux_debug = [?release, ?relwithdebinfo]"
    by (simp add: candidate_models_def proposing_def pkg_linux_debug_def substitute_def)
  have valid_2: "validate ?two ?release = None"
    using validity(3) by (simp add: proposing_def)
  have stored_2: "?both (written_out ?release)" "?both (written_out ?relwithdebinfo)"
    by (simp_all add: ids holding_def)
  from compatibility_explorer_first_match [of False ?both pkg_linux_debug ?two written_out]
    missing_2 models_2 valid_2 stored_2
  have first: "package_id (compatibility_explorer ?two written_out ?both False pkg_linux_debug)
      = written_out ?release"
    by blast
  from test third first show ?thesis
    by (simp add: linux_id requested ids)
qed

end
